theory Spec2Isabelle
  imports Main "HOL-Library.Word"
begin

section \<open>Scalars, blend modes and shader objects\<close>

subsection \<open>IEEE single-precision scalars\<close>

text \<open>
  A \<open>float\<close> (\<open>SkScalar\<close>) is its 32-bit pattern: bit 31 is the sign, bits 30..23 the
  biased exponent, bits 22..0 the fraction. A NaN has exponent 255 and a non-zero
  fraction. The comparisons of the source (\<open>weight <= 0\<close>, \<open>weight >= 1\<close>) are the IEEE
  ones: false as soon as an operand is NaN, and otherwise the order of the
  sign-magnitude integers (so that \<open>-0\<close> and \<open>+0\<close> compare equal).
\<close>

type_synonym float = "32 word"

definition float_sign :: "float \<Rightarrow> bool" where
  "float_sign w = (2 ^ 31 \<le> uint w)"

definition float_exponent :: "float \<Rightarrow> int" where
  "float_exponent w = (uint w div 2 ^ 23) mod 256"

definition float_fraction :: "float \<Rightarrow> int" where
  "float_fraction w = uint w mod 2 ^ 23"

definition float_magnitude :: "float \<Rightarrow> int" where
  "float_magnitude w = uint w mod 2 ^ 31"

definition float_key :: "float \<Rightarrow> int" where
  "float_key w = (if float_sign w then - float_magnitude w else float_magnitude w)"

definition SkScalarIsNaN :: "float \<Rightarrow> bool" where
  "SkScalarIsNaN w = (float_exponent w = 255 \<and> float_fraction w \<noteq> 0)"

definition float_is_finite :: "float \<Rightarrow> bool" where
  "float_is_finite w = (float_exponent w \<noteq> 255)"

definition float_le :: "float \<Rightarrow> float \<Rightarrow> bool" where
  "float_le a b = (\<not> SkScalarIsNaN a \<and> \<not> SkScalarIsNaN b \<and> float_key a \<le> float_key b)"

definition float_lt :: "float \<Rightarrow> float \<Rightarrow> bool" where
  "float_lt a b = (\<not> SkScalarIsNaN a \<and> \<not> SkScalarIsNaN b \<and> float_key a < float_key b)"

definition float_ge :: "float \<Rightarrow> float \<Rightarrow> bool" where
  "float_ge a b = float_le b a"

text \<open>The literals \<open>0\<close> and \<open>1\<close> of the source, converted to \<open>float\<close>.\<close>

definition float_0 :: float where
  "float_0 = 0x00000000"

definition float_1 :: float where
  "float_1 = 0x3F800000"

subsection \<open>Blend modes\<close>

text \<open>
  Modelled from the spec: the enumeration \<open>SkBlendMode\<close> (declared in SkBlendMode.h,
  which is not among the sources), "a fixed enumeration of blend modes" whose first
  three values are the trivial modes clear, source-only and destination-only and
  whose last value is \<open>kLastMode\<close>. The enumerators are listed in declaration order;
  \<open>mode_value\<close> is the integer an enumerator converts to. The properties below rest
  only on the values being different and \<open>kLastMode\<close> having the largest.
\<close>

datatype SkBlendMode =
    kClear | kSrc | kDst | kSrcOver | kDstOver | kSrcIn | kDstIn | kSrcOut | kDstOut
  | kSrcATop | kDstATop | kXor | kPlus | kModulate | kScreen
  | kOverlay | kDarken | kLighten | kColorDodge | kColorBurn | kHardLight | kSoftLight
  | kDifference | kExclusion | kMultiply
  | kHue | kSaturation | kColor | kLuminosity

definition all_modes :: "SkBlendMode list" where
  "all_modes =
    [kClear, kSrc, kDst, kSrcOver, kDstOver, kSrcIn, kDstIn, kSrcOut, kDstOut,
     kSrcATop, kDstATop, kXor, kPlus, kModulate, kScreen,
     kOverlay, kDarken, kLighten, kColorDodge, kColorBurn, kHardLight, kSoftLight,
     kDifference, kExclusion, kMultiply,
     kHue, kSaturation, kColor, kLuminosity]"

definition kLastMode :: SkBlendMode where
  "kLastMode = kLuminosity"

fun index_of :: "'a \<Rightarrow> 'a list \<Rightarrow> nat" where
  "index_of x [] = 0"
| "index_of x (y # ys) = (if x = y then 0 else Suc (index_of x ys))"

definition mode_value :: "SkBlendMode \<Rightarrow> nat" where
  "mode_value m = index_of m all_modes"

text \<open>
  \<open>static_cast<SkBlendMode>(mode)\<close>. The source casts only after the range check; the
  value given to a number out of range is never used.
\<close>

definition mode_of_value :: "nat \<Rightarrow> SkBlendMode" where
  "mode_of_value n = (if n < length all_modes then all_modes ! n else kLastMode)"

subsection \<open>Shader objects and references\<close>

text \<open>
  \<open>sk_sp<SkShader>\<close> and \<open>SkShader*\<close> are references: \<open>nullptr\<close> or the address of an
  object. Objects live in a store; the address of an object is its position there, and
  \<open>new\<close> puts the object at the first free position. Shader objects are never changed
  after construction. \<open>dst == src\<close> on two references compares addresses.
\<close>

datatype ptr = nullptr | Addr nat

type_synonym SkColor = "32 word"

datatype SkShader =
    SkColorShader SkColor
  | SkShader_Blend SkBlendMode ptr ptr
  | SkShader_Lerp float ptr ptr
  | SkOtherShader nat

type_synonym heap = "SkShader list"

definition heap_at :: "heap \<Rightarrow> ptr \<Rightarrow> SkShader option" where
  "heap_at h p = (case p of nullptr \<Rightarrow> None
                  | Addr a \<Rightarrow> (if a < length h then Some (h ! a) else None))"

definition new_shader :: "heap \<Rightarrow> SkShader \<Rightarrow> ptr \<times> heap" where
  "new_shader h obj = (Addr (length h), h @ [obj])"

text \<open>
  Modelled from the spec: \<open>MakeColorShader\<close> (SkColorShader.cpp is not among the
  sources). With colour 0 it is "a constant fully-transparent-black procedure": a new
  colour shader object holding the colour.
\<close>

definition MakeColorShader :: "heap \<Rightarrow> SkColor \<Rightarrow> ptr \<times> heap" where
  "MakeColorShader h c = new_shader h (SkColorShader c)"

section \<open>The factories\<close>

definition MakeBlend :: "heap \<Rightarrow> SkBlendMode \<Rightarrow> ptr \<Rightarrow> ptr \<Rightarrow> ptr \<times> heap" where
  "MakeBlend h mode dst src =
     (case mode of
        kClear \<Rightarrow> MakeColorShader h 0
      | kDst \<Rightarrow> (dst, h)
      | kSrc \<Rightarrow> (src, h)
      | _ \<Rightarrow> new_shader h (SkShader_Blend mode dst src))"

definition MakeLerp :: "heap \<Rightarrow> float \<Rightarrow> ptr \<Rightarrow> ptr \<Rightarrow> ptr \<times> heap" where
  "MakeLerp h weight dst src =
     (if SkScalarIsNaN weight then (nullptr, h)
      else if dst = src then (dst, h)
      else if float_le weight float_0 then (dst, h)
      else if float_ge weight float_1 then (src, h)
      else new_shader h (SkShader_Lerp weight dst src))"

section \<open>Appending raster pipeline stages\<close>

subsection \<open>The pipeline under construction\<close>

text \<open>
  Modelled from the spec: the raster pipeline and the scratch arena (SkRasterPipeline
  and SkArenaAlloc are not among the sources). The pipeline is the list of stages
  appended so far, "stages execute in append order"; a stage is a stage identifier
  with its parameter. The arena hands out scratch regions, numbered in the order they
  are made. A stage that takes a pointer to the weight of an immutable combinator is
  written with that weight.
\<close>

type_synonym SkColor4f = "float \<times> float \<times> float \<times> float"

datatype stage =
    store_src nat
  | load_dst nat
  | lerp_1_float float
  | constant_color_premul SkColor4f
  | blend_stages SkBlendMode
  | other_stage nat

record SkStageRec =
  fPipeline :: "stage list"
  fAlloc :: nat
  fPaint :: SkColor4f

definition SkRasterPipeline_append :: "stage \<Rightarrow> SkStageRec \<Rightarrow> SkStageRec" where
  "SkRasterPipeline_append st rec = rec\<lparr>fPipeline := fPipeline rec @ [st]\<rparr>"

definition SkArenaAlloc_make :: "SkStageRec \<Rightarrow> nat \<times> SkStageRec" where
  "SkArenaAlloc_make rec = (fAlloc rec, rec\<lparr>fAlloc := Suc (fAlloc rec)\<rparr>)"

text \<open>
  Modelled from the spec: \<open>append_constant_color\<close> with the paint's premultiplied
  colour, "a single stage that injects a constant color equal to the ambient paint's
  premultiplied color".
\<close>

definition append_constant_color :: "SkStageRec \<Rightarrow> SkStageRec" where
  "append_constant_color rec =
     SkRasterPipeline_append (constant_color_premul (fPaint rec)) rec"

text \<open>
  Modelled from the spec: \<open>SkBlendMode_AppendStages\<close> (SkBlendMode.cpp is not among the
  sources), "an externally-defined mapping from operator enum to one or more pipeline
  stages", returning nothing. \<open>blend_stages mode\<close> stands for the stages of the mode.
\<close>

definition SkBlendMode_AppendStages :: "SkBlendMode \<Rightarrow> SkStageRec \<Rightarrow> SkStageRec" where
  "SkBlendMode_AppendStages mode rec = SkRasterPipeline_append (blend_stages mode) rec"

text \<open>
  \<open>as_SB(shader)->appendStages(rec)\<close> is a virtual call into a shader of any kind,
  through code outside this file. It is a parameter of the functions below: for the
  object at an address, it maps the record to the outcome and the record afterwards.
\<close>

type_synonym appendStages_fn = "nat \<Rightarrow> SkStageRec \<Rightarrow> bool \<times> SkStageRec"

subsection \<open>The two-shader helper and the combinators\<close>

definition append_shader_or_paint ::
    "appendStages_fn \<Rightarrow> SkStageRec \<Rightarrow> ptr \<Rightarrow> bool \<times> SkStageRec" where
  "append_shader_or_paint appendStages rec shader =
     (case shader of
        Addr a \<Rightarrow>
          (let (ok, rec') = appendStages a rec
           in if \<not> ok then (False, rec') else (True, rec'))
      | nullptr \<Rightarrow> (True, append_constant_color rec))"

definition append_two_shaders ::
    "appendStages_fn \<Rightarrow> SkStageRec \<Rightarrow> ptr \<Rightarrow> ptr \<Rightarrow> nat option \<times> SkStageRec" where
  "append_two_shaders appendStages rec s0 s1 =
     (let (storage, rec1) = SkArenaAlloc_make rec;
          (ok0, rec2) = append_shader_or_paint appendStages rec1 s0
      in if \<not> ok0 then (None, rec2)
         else
           let rec3 = SkRasterPipeline_append (store_src storage) rec2;
               (ok1, rec4) = append_shader_or_paint appendStages rec3 s1
           in if \<not> ok1 then (None, rec4) else (Some storage, rec4))"

definition SkShader_Blend_onAppendStages ::
    "appendStages_fn \<Rightarrow> SkBlendMode \<Rightarrow> ptr \<Rightarrow> ptr \<Rightarrow> SkStageRec \<Rightarrow> bool \<times> SkStageRec" where
  "SkShader_Blend_onAppendStages appendStages fMode fDst fSrc rec =
     (case append_two_shaders appendStages rec fDst fSrc of
        (None, rec') \<Rightarrow> (False, rec')
      | (Some res0, rec') \<Rightarrow>
          (True, SkBlendMode_AppendStages fMode (SkRasterPipeline_append (load_dst res0) rec')))"

definition SkShader_Lerp_onAppendStages ::
    "appendStages_fn \<Rightarrow> float \<Rightarrow> ptr \<Rightarrow> ptr \<Rightarrow> SkStageRec \<Rightarrow> bool \<times> SkStageRec" where
  "SkShader_Lerp_onAppendStages appendStages fWeight fDst fSrc rec =
     (case append_two_shaders appendStages rec fDst fSrc of
        (None, rec') \<Rightarrow> (False, rec')
      | (Some res0, rec') \<Rightarrow>
          (True, SkRasterPipeline_append (lerp_1_float fWeight)
                   (SkRasterPipeline_append (load_dst res0) rec')))"

text \<open>
  What a child appended between two records, and the contract that a child's
  stage-append only ever appends to the pipeline it is given.
\<close>

definition stages_added :: "SkStageRec \<Rightarrow> SkStageRec \<Rightarrow> stage list" where
  "stages_added rec rec' = drop (length (fPipeline rec)) (fPipeline rec')"

definition only_appends :: "appendStages_fn \<Rightarrow> bool" where
  "only_appends appendStages =
     (\<forall>a rec. take (length (fPipeline rec)) (fPipeline (snd (appendStages a rec))) =
        fPipeline rec)"

text \<open>
  A sample of the virtual call: the shader at address 9 fails after appending one
  stage, every other shader appends one stage of its own and succeeds.
\<close>

definition sample_appendStages :: appendStages_fn where
  "sample_appendStages a rec = (a \<noteq> 9, SkRasterPipeline_append (other_stage a) rec)"

definition rec0 :: SkStageRec where
  "rec0 = \<lparr>fPipeline = [], fAlloc = 0, fPaint = (float_1, float_0, float_0, float_1)\<rparr>"

section \<open>Flattening and unflattening\<close>

subsection \<open>The buffers\<close>

text \<open>
  Modelled from the spec: the binary read and write buffers (SkReadBuffer and
  SkWriteBuffer are not among the sources). Every field is four bytes wide, so a
  buffer is a list of 32-bit words. The write buffer grows at its end. The read
  buffer holds the words still to be read and the flag \<open>fError\<close>; a read past the end
  trips the flag, and a read on a tripped buffer yields 0. \<open>validate\<close> "marks the
  stream invalid \<dots> if condition is false" and answers whether the stream is still
  valid; \<open>isValid\<close> answers the same without marking.
\<close>

type_synonym SkWriteBuffer = "32 word list"

record SkReadBuffer =
  fData :: "32 word list"
  fError :: bool

definition write32 :: "32 word \<Rightarrow> SkWriteBuffer \<Rightarrow> SkWriteBuffer" where
  "write32 v buffer = buffer @ [v]"

definition writeScalar :: "float \<Rightarrow> SkWriteBuffer \<Rightarrow> SkWriteBuffer" where
  "writeScalar v buffer = buffer @ [v]"

definition read32 :: "SkReadBuffer \<Rightarrow> 32 word \<times> SkReadBuffer" where
  "read32 buffer =
     (if fError buffer then (0, buffer)
      else case fData buffer of
             [] \<Rightarrow> (0, buffer\<lparr>fError := True\<rparr>)
           | v # rest \<Rightarrow> (v, buffer\<lparr>fData := rest\<rparr>))"

definition readScalar :: "SkReadBuffer \<Rightarrow> float \<times> SkReadBuffer" where
  "readScalar buffer = read32 buffer"

definition isValid :: "SkReadBuffer \<Rightarrow> bool" where
  "isValid buffer = (\<not> fError buffer)"

definition validate :: "SkReadBuffer \<Rightarrow> bool \<Rightarrow> bool \<times> SkReadBuffer" where
  "validate buffer cond =
     (let buffer' = (if \<not> cond then buffer\<lparr>fError := True\<rparr> else buffer)
      in (\<not> fError buffer', buffer'))"

text \<open>
  \<open>writeFlattenable\<close> and \<open>readShader\<close> encode and decode a child of any kind through
  code outside this file; they are parameters of the functions below. Decoding a
  shader can allocate, so \<open>readShader\<close> also maps the store.
\<close>

type_synonym writeFlattenable_fn = "ptr \<Rightarrow> SkWriteBuffer \<Rightarrow> SkWriteBuffer"

type_synonym readShader_fn = "SkReadBuffer \<Rightarrow> heap \<Rightarrow> ptr \<times> SkReadBuffer \<times> heap"

subsection \<open>The codec of the two combinators\<close>

definition SkShader_Blend_CreateProc ::
    "readShader_fn \<Rightarrow> SkReadBuffer \<Rightarrow> heap \<Rightarrow> ptr \<times> SkReadBuffer \<times> heap" where
  "SkShader_Blend_CreateProc readShader buffer h =
     (let (dst, buffer1, h1) = readShader buffer h;
          (src, buffer2, h2) = readShader buffer1 h1;
          (mode, buffer3) = read32 buffer2;
          (ok, buffer4) = validate buffer3 (unat mode \<le> mode_value kLastMode)
      in if \<not> ok then (nullptr, buffer4, h2)
         else
           let (p, h3) = MakeBlend h2 (mode_of_value (unat mode)) dst src
           in (p, buffer4, h3))"

definition SkShader_Blend_flatten ::
    "writeFlattenable_fn \<Rightarrow> SkBlendMode \<Rightarrow> ptr \<Rightarrow> ptr \<Rightarrow> SkWriteBuffer \<Rightarrow> SkWriteBuffer" where
  "SkShader_Blend_flatten writeFlattenable fMode fDst fSrc buffer =
     write32 (of_nat (mode_value fMode))
       (writeFlattenable fSrc (writeFlattenable fDst buffer))"

definition SkShader_Lerp_CreateProc ::
    "readShader_fn \<Rightarrow> SkReadBuffer \<Rightarrow> heap \<Rightarrow> ptr \<times> SkReadBuffer \<times> heap" where
  "SkShader_Lerp_CreateProc readShader buffer h =
     (let (dst, buffer1, h1) = readShader buffer h;
          (src, buffer2, h2) = readShader buffer1 h1;
          (t, buffer3) = readScalar buffer2
      in if isValid buffer3
         then let (p, h3) = MakeLerp h2 t dst src in (p, buffer3, h3)
         else (nullptr, buffer3, h2))"

definition SkShader_Lerp_flatten ::
    "writeFlattenable_fn \<Rightarrow> float \<Rightarrow> ptr \<Rightarrow> ptr \<Rightarrow> SkWriteBuffer \<Rightarrow> SkWriteBuffer" where
  "SkShader_Lerp_flatten writeFlattenable fWeight fDst fSrc buffer =
     writeScalar fWeight (writeFlattenable fSrc (writeFlattenable fDst buffer))"

subsection \<open>A sample of the calls on children\<close>

text \<open>
  A small instance of the three virtual calls, for stores whose children are colour
  shaders: a colour shader is written as the word 1 and its colour, an absent shader
  as the word 0; reading reverses this; a colour shader appends one stage that
  carries its colour.
\<close>

definition color_writeFlattenable :: "heap \<Rightarrow> writeFlattenable_fn" where
  "color_writeFlattenable h p buffer =
     (case heap_at h p of
        Some (SkColorShader c) \<Rightarrow> write32 c (write32 1 buffer)
      | _ \<Rightarrow> write32 0 buffer)"

definition color_readShader :: readShader_fn where
  "color_readShader buffer h =
     (let (tag, buffer1) = read32 buffer
      in if tag = 1 then
           (let (c, buffer2) = read32 buffer1
            in if isValid buffer2
               then let (p, h') = MakeColorShader h c in (p, buffer2, h')
               else (nullptr, buffer2, h))
         else (nullptr, snd (validate buffer1 (tag = 0)), h))"

definition color_appendStages :: "heap \<Rightarrow> appendStages_fn" where
  "color_appendStages h a rec =
     (case heap_at h (Addr a) of
        Some (SkColorShader c) \<Rightarrow> (True, SkRasterPipeline_append (other_stage (unat c)) rec)
      | _ \<Rightarrow> (False, rec))"

section \<open>Lowering to GPU fragment processors\<close>

text \<open>
  \<open>as_SB(child)->asFragmentProcessor(args)\<close> is a virtual call on the child object,
  the parameter \<open>asFP\<close> below; it is made without a null check, so on a \<open>nullptr\<close>
  child it dereferences a null pointer.
\<close>

datatype fault = NullDereference

definition as_SB_asFragmentProcessor ::
    "(nat \<Rightarrow> 'args \<Rightarrow> 'fp option) \<Rightarrow> ptr \<Rightarrow> 'args \<Rightarrow> fault + 'fp option" where
  "as_SB_asFragmentProcessor asFP shader args =
     (case shader of nullptr \<Rightarrow> Inl NullDereference | Addr a \<Rightarrow> Inr (asFP a args))"

definition SkShader_Lerp_asFragmentProcessor ::
    "(nat \<Rightarrow> 'args \<Rightarrow> 'fp option) \<Rightarrow> float \<Rightarrow> ptr \<Rightarrow> ptr \<Rightarrow> 'args \<Rightarrow> fault + 'fp option" where
  "SkShader_Lerp_asFragmentProcessor asFP fWeight fDst fSrc args =
     (case as_SB_asFragmentProcessor asFP fDst args of
        Inl e \<Rightarrow> Inl e
      | Inr None \<Rightarrow> Inr None
      | Inr (Some fpA) \<Rightarrow>
          (case as_SB_asFragmentProcessor asFP fSrc args of
             Inl e \<Rightarrow> Inl e
           | Inr None \<Rightarrow> Inr None
           | Inr (Some fpB) \<Rightarrow> Inr None))"

section \<open>Stores built through the factories\<close>

text \<open>
  The constructors of the two combinators are called by \<open>MakeBlend\<close> and \<open>MakeLerp\<close>
  only. A store is \<open>built\<close> when its combinator objects all come from these factories;
  other shader kinds are allocated freely.
\<close>

inductive built :: "heap \<Rightarrow> bool" where
  built_empty: "built []"
| built_color: "built h \<Longrightarrow> built (snd (MakeColorShader h c))"
| built_other: "built h \<Longrightarrow> built (snd (new_shader h (SkOtherShader n)))"
| built_blend: "built h \<Longrightarrow> built (snd (MakeBlend h mode dst src))"
| built_lerp: "built h \<Longrightarrow> built (snd (MakeLerp h weight dst src))"

text \<open>What the data model asks of a stored object.\<close>

fun shader_invariant :: "SkShader \<Rightarrow> bool" where
  "shader_invariant (SkShader_Blend mode dst src) =
     (mode \<noteq> kClear \<and> mode \<noteq> kDst \<and> mode \<noteq> kSrc)"
| "shader_invariant (SkShader_Lerp weight dst src) =
     (\<not> SkScalarIsNaN weight \<and> float_lt float_0 weight \<and> float_lt weight float_1 \<and>
      dst \<noteq> src)"
| "shader_invariant (SkColorShader c) = True"
| "shader_invariant (SkOtherShader n) = True"

section \<open>Properties of the scalar comparisons\<close>

lemma float_key_0: "float_key float_0 = 0"
  by (simp add: float_key_def float_sign_def float_magnitude_def float_0_def)

lemma float_key_1: "float_key float_1 = 1065353216"
  by (simp add: float_key_def float_sign_def float_magnitude_def float_1_def)

lemma not_nan_0: "\<not> SkScalarIsNaN float_0"
  by (simp add: SkScalarIsNaN_def float_exponent_def float_fraction_def float_0_def)

lemma not_nan_1: "\<not> SkScalarIsNaN float_1"
  by (simp add: SkScalarIsNaN_def float_exponent_def float_fraction_def float_1_def)

lemma float_le_0_iff: "float_le w float_0 \<longleftrightarrow> \<not> SkScalarIsNaN w \<and> float_key w \<le> 0"
  by (simp add: float_le_def not_nan_0 float_key_0)

lemma float_ge_1_iff: "float_ge w float_1 \<longleftrightarrow> \<not> SkScalarIsNaN w \<and> 1065353216 \<le> float_key w"
  by (auto simp add: float_ge_def float_le_def not_nan_1 float_key_1)

lemma float_gt_0_iff: "float_lt float_0 w \<longleftrightarrow> \<not> SkScalarIsNaN w \<and> 0 < float_key w"
  by (simp add: float_lt_def not_nan_0 float_key_0)

lemma float_lt_1_iff: "float_lt w float_1 \<longleftrightarrow> \<not> SkScalarIsNaN w \<and> float_key w < 1065353216"
  by (auto simp add: float_lt_def not_nan_1 float_key_1)

lemmas float_cmp_iffs = float_le_0_iff float_ge_1_iff float_gt_0_iff float_lt_1_iff

text \<open>
  The two comparisons of the source read on the bits: a scalar is at most 0 when it
  is not NaN and is negative or a zero, and at least 1 when it is not NaN, is
  positive and has a biased exponent of 127 or more.
\<close>

lemma split_bits_int:
  fixes x e f :: int
  assumes x: "x = 8388608 * e + f" and f0: "0 \<le> f" and f1: "f < 8388608"
    and x0: "0 \<le> x" and x1: "x < 2147483648"
  shows "0 \<le> e" and "e < 256" and "x \<le> 0 \<longleftrightarrow> e = 0 \<and> f = 0"
    and "1065353216 \<le> x \<longleftrightarrow> 127 \<le> e"
proof -
  show e0: "0 \<le> e" using x f1 x0 by linarith
  show "e < 256" using x f0 x1 by linarith
  show "x \<le> 0 \<longleftrightarrow> e = 0 \<and> f = 0" using x f0 e0 by linarith
  show "1065353216 \<le> x \<longleftrightarrow> 127 \<le> e" using x f0 f1 by linarith
qed

lemma float_fields:
  assumes pos: "\<not> float_sign w"
  shows "float_magnitude w = uint w"
    and "uint w \<le> 0 \<longleftrightarrow> float_exponent w = 0 \<and> float_fraction w = 0"
    and "1065353216 \<le> uint w \<longleftrightarrow> 127 \<le> float_exponent w"
proof -
  from pos have lt: "uint w < 2147483648"
    by (simp add: float_sign_def)
  have nonneg: "0 \<le> uint w"
    by (rule uint_ge_0)
  have dec: "uint w = 8388608 * (uint w div 8388608) + uint w mod 8388608"
    by (rule mult_div_mod_eq [symmetric])
  have f0: "0 \<le> uint w mod 8388608"
    by (rule pos_mod_sign) simp
  have f1: "uint w mod 8388608 < 8388608"
    by (rule pos_mod_bound) simp
  note sb = split_bits_int [OF dec f0 f1 nonneg lt]
  have e: "float_exponent w = uint w div 8388608"
    unfolding float_exponent_def using mod_pos_pos_trivial [OF sb(1) sb(2)] by simp
  have f: "float_fraction w = uint w mod 8388608"
    unfolding float_fraction_def by simp
  show "float_magnitude w = uint w"
    unfolding float_magnitude_def using mod_pos_pos_trivial [OF nonneg lt] by simp
  show "uint w \<le> 0 \<longleftrightarrow> float_exponent w = 0 \<and> float_fraction w = 0"
    unfolding e f by (rule sb(3))
  show "1065353216 \<le> uint w \<longleftrightarrow> 127 \<le> float_exponent w"
    unfolding e by (rule sb(4))
qed

lemma float_magnitude_nonneg: "0 \<le> float_magnitude w"
  unfolding float_magnitude_def by (rule pos_mod_sign) simp

lemma float_le_0_bits:
  "float_le w float_0 \<longleftrightarrow>
     \<not> SkScalarIsNaN w \<and> (float_sign w \<or> (float_exponent w = 0 \<and> float_fraction w = 0))"
proof (cases "float_sign w")
  case True
  with float_magnitude_nonneg [of w] show ?thesis
    by (simp add: float_le_0_iff float_key_def)
next
  case False
  from float_fields(1,2) [OF False] False show ?thesis
    by (simp add: float_le_0_iff float_key_def)
qed

lemma float_ge_1_bits:
  "float_ge w float_1 \<longleftrightarrow>
     \<not> SkScalarIsNaN w \<and> \<not> float_sign w \<and> 127 \<le> float_exponent w"
proof (cases "float_sign w")
  case True
  with float_magnitude_nonneg [of w] show ?thesis
    by (simp add: float_ge_1_iff float_key_def)
next
  case False
  from float_fields(1,3) [OF False] False show ?thesis
    by (simp add: float_ge_1_iff float_key_def)
qed

text \<open>Sample scalars: 0.5, 2.0, -0.0 and the quiet NaN.\<close>

lemma half_not_nan: "\<not> SkScalarIsNaN 0x3F000000"
  by (simp add: SkScalarIsNaN_def float_exponent_def float_fraction_def)

lemma half_key: "float_key 0x3F000000 = 1056964608"
  by (simp add: float_key_def float_sign_def float_magnitude_def)

lemma two_not_nan: "\<not> SkScalarIsNaN 0x40000000"
  by (simp add: SkScalarIsNaN_def float_exponent_def float_fraction_def)

lemma two_key: "float_key 0x40000000 = 1073741824"
  by (simp add: float_key_def float_sign_def float_magnitude_def)

lemma two_finite: "float_is_finite 0x40000000"
  by (simp add: float_is_finite_def float_exponent_def)

lemma minus_zero_not_nan: "\<not> SkScalarIsNaN 0x80000000"
  by (simp add: SkScalarIsNaN_def float_exponent_def float_fraction_def)

lemma minus_zero_key: "float_key 0x80000000 = 0"
  by (simp add: float_key_def float_sign_def float_magnitude_def)

lemma qnan_is_nan: "SkScalarIsNaN 0x7FC00000"
  by (simp add: SkScalarIsNaN_def float_exponent_def float_fraction_def)

section \<open>Properties of the factories\<close>

lemma heap_at_new_shader:
  "heap_at (snd (new_shader h obj)) (fst (new_shader h obj)) = Some obj"
  by (simp add: new_shader_def heap_at_def)

lemma heap_at_new_shader_old:
  "heap_at h p = Some x \<Longrightarrow> heap_at (snd (new_shader h obj)) p = Some x"
  by (cases p) (auto simp add: new_shader_def heap_at_def nth_append split: if_splits)

lemma heap_at_fresh: "heap_at h (fst (new_shader h obj)) = None"
  by (simp add: new_shader_def heap_at_def)

text \<open>
  C1, as amended. \<open>MakeLerp\<close> returns \<open>nullptr\<close> for every NaN weight. For a weight
  that is not NaN it returns \<open>nullptr\<close> exactly when the reference it hands back is
  itself \<open>nullptr\<close>: the destination when both references are equal or the weight is
  at most 0, the source when the weight is at least 1. With both references present
  the result is \<open>nullptr\<close> if and only if the weight is NaN.
\<close>

theorem MakeLerp_null_iff:
  "(SkScalarIsNaN w \<longrightarrow> fst (MakeLerp h w dst src) = nullptr) \<and>
   (dst \<noteq> nullptr \<and> src \<noteq> nullptr \<longrightarrow>
      (fst (MakeLerp h w dst src) = nullptr \<longleftrightarrow> SkScalarIsNaN w)) \<and>
   (\<not> SkScalarIsNaN w \<longrightarrow>
      (fst (MakeLerp h w dst src) = nullptr \<longleftrightarrow>
         (dst = nullptr \<and> (src = nullptr \<or> float_le w float_0)) \<or>
         (src = nullptr \<and> \<not> float_le w float_0 \<and> float_ge w float_1)))"
  by (auto simp add: MakeLerp_def new_shader_def)

theorem MakeLerp_null_iff_witness:
  "SkScalarIsNaN 0x7FC00000 \<and>
   fst (MakeLerp [SkColorShader 0xFFFF0000, SkColorShader 0xFF0000FF] 0x7FC00000
          (Addr 0) (Addr 1)) = nullptr \<and>
   \<not> SkScalarIsNaN 0x3F000000 \<and>
   fst (MakeLerp [SkColorShader 0xFFFF0000, SkColorShader 0xFF0000FF] 0x3F000000
          (Addr 0) (Addr 1)) \<noteq> nullptr \<and>
   \<not> SkScalarIsNaN 0x40000000 \<and> float_ge 0x40000000 float_1 \<and>
   fst (MakeLerp [SkColorShader 0xFFFF0000, SkColorShader 0xFF0000FF] 0x40000000
          (Addr 0) nullptr) = nullptr"
  using MakeLerp_null_iff
          [of "0x7FC00000" "[SkColorShader 0xFFFF0000, SkColorShader 0xFF0000FF]"
              "Addr 0" "Addr 1"]
        MakeLerp_null_iff
          [of "0x3F000000" "[SkColorShader 0xFFFF0000, SkColorShader 0xFF0000FF]"
              "Addr 0" "Addr 1"]
        MakeLerp_null_iff
          [of "0x40000000" "[SkColorShader 0xFFFF0000, SkColorShader 0xFF0000FF]"
              "Addr 0" nullptr]
  by (simp add: qnan_is_nan half_not_nan two_not_nan float_cmp_iffs two_key)

text \<open>
  C1 as stated fails: the weight 0 is not NaN, and with an absent destination
  \<open>MakeLerp\<close> hands back that absent destination.
\<close>

theorem MakeLerp_null_without_NaN:
  "\<not> SkScalarIsNaN float_0 \<and>
   fst (MakeLerp [SkColorShader 0xFF0000FF] float_0 nullptr (Addr 0)) = nullptr"
  by (simp add: MakeLerp_def not_nan_0 float_le_0_iff float_key_0)

text \<open>
  C2. \<open>MakeBlend\<close> has no failing path. For the clear mode it returns a new colour
  shader of colour 0 (transparent black), whatever the two references are; for the
  destination-only mode it returns the destination reference itself, and for the
  source-only mode the source reference itself, allocating nothing; for every other
  mode it allocates a blend combinator holding the mode and both references.
\<close>

theorem MakeBlend_simplifies:
  "MakeBlend h kClear dst src = (Addr (length h), h @ [SkColorShader 0]) \<and>
   MakeBlend h kDst dst src = (dst, h) \<and>
   MakeBlend h kSrc dst src = (src, h) \<and>
   (mode \<noteq> kClear \<and> mode \<noteq> kDst \<and> mode \<noteq> kSrc \<longrightarrow>
      MakeBlend h mode dst src = (Addr (length h), h @ [SkShader_Blend mode dst src]))"
  by (cases mode) (simp_all add: MakeBlend_def MakeColorShader_def new_shader_def)

theorem MakeBlend_simplifies_witness:
  "MakeBlend [SkOtherShader 7, SkOtherShader 8] kSrcOver (Addr 0) (Addr 1) =
     (Addr 2, [SkOtherShader 7, SkOtherShader 8, SkShader_Blend kSrcOver (Addr 0) (Addr 1)])"
  using MakeBlend_simplifies [of "[SkOtherShader 7, SkOtherShader 8]" "Addr 0" "Addr 1" kSrcOver]
  by simp

text \<open>
  C3. For two different references: a weight at most 0 gives back the destination
  reference, a weight at least 1 the source reference, both without allocating; a
  weight strictly between 0 and 1 allocates a lerp combinator holding the weight and
  both references.
\<close>

theorem MakeLerp_weight_cases:
  "dst \<noteq> src \<longrightarrow>
     (float_le w float_0 \<longrightarrow> MakeLerp h w dst src = (dst, h)) \<and>
     (float_ge w float_1 \<longrightarrow> MakeLerp h w dst src = (src, h)) \<and>
     (float_lt float_0 w \<and> float_lt w float_1 \<longrightarrow>
        MakeLerp h w dst src = (Addr (length h), h @ [SkShader_Lerp w dst src]))"
  by (auto simp add: MakeLerp_def float_cmp_iffs new_shader_def)

theorem MakeLerp_weight_cases_witness:
  "Addr 0 \<noteq> Addr 1 \<and>
   float_le 0x80000000 float_0 \<and>
   MakeLerp [SkOtherShader 7, SkOtherShader 8] 0x80000000 (Addr 0) (Addr 1) =
     (Addr 0, [SkOtherShader 7, SkOtherShader 8]) \<and>
   float_ge 0x40000000 float_1 \<and>
   MakeLerp [SkOtherShader 7, SkOtherShader 8] 0x40000000 (Addr 0) (Addr 1) =
     (Addr 1, [SkOtherShader 7, SkOtherShader 8]) \<and>
   float_lt float_0 0x3F000000 \<and> float_lt 0x3F000000 float_1 \<and>
   MakeLerp [SkOtherShader 7, SkOtherShader 8] 0x3F000000 (Addr 0) (Addr 1) =
     (Addr 2, [SkOtherShader 7, SkOtherShader 8, SkShader_Lerp 0x3F000000 (Addr 0) (Addr 1)])"
  using MakeLerp_weight_cases
          [of "Addr 0" "Addr 1" "0x80000000" "[SkOtherShader 7, SkOtherShader 8]"]
        MakeLerp_weight_cases
          [of "Addr 0" "Addr 1" "0x40000000" "[SkOtherShader 7, SkOtherShader 8]"]
        MakeLerp_weight_cases
          [of "Addr 0" "Addr 1" "0x3F000000" "[SkOtherShader 7, SkOtherShader 8]"]
  by (simp add: float_cmp_iffs minus_zero_not_nan minus_zero_key two_not_nan two_key
        half_not_nan half_key)

text \<open>
  C4. When destination and source are the same reference, \<open>MakeLerp\<close> gives that
  reference back and allocates nothing, for every weight that is not NaN (finite or
  not, inside or outside the interval from 0 to 1).
\<close>

theorem MakeLerp_same_child:
  "\<not> SkScalarIsNaN w \<Longrightarrow> MakeLerp h w A A = (A, h)"
  by (simp add: MakeLerp_def)

theorem MakeLerp_same_child_witness:
  "float_is_finite 0x40000000 \<and> \<not> SkScalarIsNaN 0x40000000 \<and>
   MakeLerp [SkOtherShader 7] 0x40000000 (Addr 0) (Addr 0) = (Addr 0, [SkOtherShader 7])"
  using MakeLerp_same_child [OF two_not_nan, of "[SkOtherShader 7]" "Addr 0"]
  by (simp add: two_finite two_not_nan)

text \<open>The factories keep the invariant of every stored object.\<close>

lemma MakeBlend_invariant:
  "list_all shader_invariant h \<Longrightarrow> list_all shader_invariant (snd (MakeBlend h mode dst src))"
  by (cases mode) (simp_all add: MakeBlend_def MakeColorShader_def new_shader_def)

lemma MakeLerp_invariant:
  "list_all shader_invariant h \<Longrightarrow> list_all shader_invariant (snd (MakeLerp h w dst src))"
  by (auto simp add: MakeLerp_def new_shader_def float_cmp_iffs)

lemma built_list_all: "built h \<Longrightarrow> list_all shader_invariant h"
proof (induction rule: built.induct)
  case built_empty
  show ?case by simp
next
  case (built_color h c)
  then show ?case by (simp add: MakeColorShader_def new_shader_def)
next
  case (built_other h n)
  then show ?case by (simp add: new_shader_def)
next
  case (built_blend h mode dst src)
  from built_blend.IH show ?case by (rule MakeBlend_invariant)
next
  case (built_lerp h weight dst src)
  from built_lerp.IH show ?case by (rule MakeLerp_invariant)
qed

text \<open>
  C9. In a store built through the factories every blend combinator holds a mode that
  is none of clear, destination-only and source-only, and every lerp combinator holds
  a weight that is not NaN, greater than 0 and less than 1, and two references that
  are not the same.
\<close>

theorem built_heap_invariant:
  "built h \<Longrightarrow> heap_at h p = Some obj \<Longrightarrow> shader_invariant obj"
proof -
  assume b: "built h" and at: "heap_at h p = Some obj"
  from at obtain a where "a < length h" and "obj = h ! a"
    by (cases p) (auto simp add: heap_at_def split: if_splits)
  with built_list_all [OF b] show "shader_invariant obj"
    by (simp add: list_all_length)
qed

theorem built_heap_invariant_witness:
  "built (snd (MakeLerp (snd (MakeBlend [] kClear nullptr nullptr)) 0x3F000000 nullptr (Addr 0))) \<and>
   heap_at (snd (MakeLerp (snd (MakeBlend [] kClear nullptr nullptr)) 0x3F000000 nullptr (Addr 0)))
     (Addr 1) = Some (SkShader_Lerp 0x3F000000 nullptr (Addr 0)) \<and>
   shader_invariant (SkShader_Lerp 0x3F000000 nullptr (Addr 0))"
proof -
  let ?h = "snd (MakeLerp (snd (MakeBlend [] kClear nullptr nullptr)) 0x3F000000 nullptr (Addr 0))"
  have b: "built ?h"
    by (intro built_lerp built_blend built_empty)
  have at: "heap_at ?h (Addr 1) = Some (SkShader_Lerp 0x3F000000 nullptr (Addr 0))"
    by (simp add: MakeLerp_def MakeBlend_def MakeColorShader_def new_shader_def heap_at_def
          half_not_nan float_cmp_iffs half_key)
  from built_heap_invariant [OF b at] b at show ?thesis by simp
qed

section \<open>Properties of the stage-append functions\<close>

lemma append_shader_or_paint_simps:
  "append_shader_or_paint app rec nullptr = (True, append_constant_color rec)"
  "append_shader_or_paint app rec (Addr a) = app a rec"
  by (auto simp add: append_shader_or_paint_def Let_def split: prod.splits)

lemma append_two_shaders_unfold:
  "append_two_shaders app rec s0 s1 =
     (let d = append_shader_or_paint app (rec\<lparr>fAlloc := Suc (fAlloc rec)\<rparr>) s0
      in if \<not> fst d then (None, snd d)
         else
           let s = append_shader_or_paint app
                     (SkRasterPipeline_append (store_src (fAlloc rec)) (snd d)) s1
           in if \<not> fst s then (None, snd s) else (Some (fAlloc rec), snd s))"
  by (simp add: append_two_shaders_def SkArenaAlloc_make_def Let_def split: prod.splits)

lemma append_shader_or_paint_appends:
  assumes "only_appends app"
  shows "fPipeline (snd (append_shader_or_paint app rec s)) =
           fPipeline rec @ stages_added rec (snd (append_shader_or_paint app rec s))"
proof (cases s)
  case nullptr
  then show ?thesis
    by (simp add: append_shader_or_paint_simps append_constant_color_def
          SkRasterPipeline_append_def stages_added_def)
next
  case (Addr a)
  from assms have "take (length (fPipeline rec)) (fPipeline (snd (app a rec))) = fPipeline rec"
    by (simp add: only_appends_def)
  then have "fPipeline (snd (app a rec)) =
      fPipeline rec @ drop (length (fPipeline rec)) (fPipeline (snd (app a rec)))"
    by (metis append_take_drop_id)
  with Addr show ?thesis
    by (simp add: append_shader_or_paint_simps stages_added_def)
qed

text \<open>
  C5. A present child is appended through its own stage-append, an absent one as
  the paint's colour, which cannot fail. With \<open>p\<close> the scratch region reserved
  first, \<open>d\<close> the outcome of the destination child on the pipeline as given and \<open>s\<close>
  the outcome of the source child on the pipeline that follows \<open>d\<close> and the stage
  \<open>store_src p\<close>: the helper returns the handle \<open>p\<close> with the record the source
  child left when both succeed, and fails exactly when the destination child fails
  (the source child is then not run) or the source child fails. When children only
  append, the pipeline after the source child is the given pipeline, then the
  destination's stages, then \<open>store_src p\<close>, then the source's stages.
\<close>

theorem append_two_shaders_order:
  "let p = fAlloc rec;
       d = append_shader_or_paint app (rec\<lparr>fAlloc := Suc p\<rparr>) s0;
       rec3 = SkRasterPipeline_append (store_src p) (snd d);
       s = append_shader_or_paint app rec3 s1
   in append_shader_or_paint app rec (Addr a) = app a rec \<and>
      append_shader_or_paint app rec nullptr = (True, append_constant_color rec) \<and>
      append_two_shaders app rec s0 s1 =
        (if \<not> fst d then (None, snd d)
         else if \<not> fst s then (None, snd s)
         else (Some p, snd s)) \<and>
      (fst (append_two_shaders app rec s0 s1) = None \<longleftrightarrow> \<not> fst d \<or> \<not> fst s) \<and>
      (only_appends app \<longrightarrow> fst d \<longrightarrow>
         fPipeline (snd s) =
           fPipeline rec @ stages_added rec (snd d) @ [store_src p] @ stages_added rec3 (snd s))"
proof -
  define p where "p = fAlloc rec"
  define d where "d = append_shader_or_paint app (rec\<lparr>fAlloc := Suc p\<rparr>) s0"
  define rec3 where "rec3 = SkRasterPipeline_append (store_src p) (snd d)"
  define s where "s = append_shader_or_paint app rec3 s1"
  have eq: "append_two_shaders app rec s0 s1 =
        (if \<not> fst d then (None, snd d)
         else if \<not> fst s then (None, snd s)
         else (Some p, snd s))"
    by (simp add: append_two_shaders_unfold Let_def p_def d_def rec3_def s_def)
  have none: "fst (append_two_shaders app rec s0 s1) = None \<longleftrightarrow> \<not> fst d \<or> \<not> fst s"
    by (simp add: eq)
  have pipe: "fPipeline (snd s) =
      fPipeline rec @ stages_added rec (snd d) @ [store_src p] @ stages_added rec3 (snd s)"
    if oa: "only_appends app"
  proof -
    have 1: "fPipeline (snd d) = fPipeline rec @ stages_added rec (snd d)"
      using append_shader_or_paint_appends [OF oa, of "rec\<lparr>fAlloc := Suc p\<rparr>" s0]
      by (simp add: d_def stages_added_def)
    have 2: "fPipeline rec3 = fPipeline (snd d) @ [store_src p]"
      by (simp add: rec3_def SkRasterPipeline_append_def)
    have 3: "fPipeline (snd s) = fPipeline rec3 @ stages_added rec3 (snd s)"
      using append_shader_or_paint_appends [OF oa, of rec3 s1] by (simp add: s_def)
    from 1 2 3 show ?thesis by simp
  qed
  note child = append_shader_or_paint_simps [of app rec]
  from child eq none pipe show ?thesis
    unfolding Let_def p_def [symmetric] d_def [symmetric] rec3_def [symmetric] s_def [symmetric]
    by blast
qed


lemma sample_only_appends: "only_appends sample_appendStages"
  by (simp add: only_appends_def sample_appendStages_def SkRasterPipeline_append_def)

theorem append_two_shaders_order_witness:
  "only_appends sample_appendStages \<and>
   append_two_shaders sample_appendStages rec0 (Addr 3) nullptr =
     (Some 0,
      \<lparr>fPipeline = [other_stage 3, store_src 0,
                    constant_color_premul (float_1, float_0, float_0, float_1)],
       fAlloc = 1, fPaint = (float_1, float_0, float_0, float_1)\<rparr>) \<and>
   fst (append_two_shaders sample_appendStages rec0 (Addr 3) (Addr 9)) = None \<and>
   fst (append_two_shaders sample_appendStages rec0 (Addr 9) (Addr 3)) = None"
  using append_two_shaders_order [of rec0 sample_appendStages "Addr 3" nullptr]
        append_two_shaders_order [of rec0 sample_appendStages "Addr 3" "Addr 9"]
        append_two_shaders_order [of rec0 sample_appendStages "Addr 9" "Addr 3"]
        sample_only_appends
  by (simp add: Let_def append_shader_or_paint_simps sample_appendStages_def rec0_def
        SkRasterPipeline_append_def append_constant_color_def stages_added_def)

text \<open>
  C6. For the blend and the lerp combinator alike: the stage-append succeeds exactly
  when the two-shader helper does. When the destination child fails, or the source
  child fails, the combinator returns failure with the record as that child left it,
  so nothing is appended after the failure. When both succeed it returns success,
  having appended \<open>load_dst p\<close> and then the stages of the blend mode, or the lerp
  stage with the stored weight.
\<close>

theorem onAppendStages_failure_paths:
  "let p = fAlloc rec;
       d = append_shader_or_paint app (rec\<lparr>fAlloc := Suc p\<rparr>) fDst;
       s = append_shader_or_paint app (SkRasterPipeline_append (store_src p) (snd d)) fSrc;
       two = append_two_shaders app rec fDst fSrc;
       blend = SkShader_Blend_onAppendStages app fMode fDst fSrc rec;
       lerp = SkShader_Lerp_onAppendStages app fWeight fDst fSrc rec
   in (fst blend \<longleftrightarrow> fst two \<noteq> None) \<and> (fst lerp \<longleftrightarrow> fst two \<noteq> None) \<and>
      (fst two = None \<longrightarrow> blend = (False, snd two) \<and> lerp = (False, snd two)) \<and>
      (\<not> fst d \<longrightarrow> blend = (False, snd d) \<and> lerp = (False, snd d)) \<and>
      (fst d \<and> \<not> fst s \<longrightarrow> blend = (False, snd s) \<and> lerp = (False, snd s)) \<and>
      (fst d \<and> fst s \<longrightarrow>
         blend = (True, (snd s)\<lparr>fPipeline :=
                    fPipeline (snd s) @ [load_dst p, blend_stages fMode]\<rparr>) \<and>
         lerp = (True, (snd s)\<lparr>fPipeline :=
                    fPipeline (snd s) @ [load_dst p, lerp_1_float fWeight]\<rparr>))"
  by (simp add: SkShader_Blend_onAppendStages_def SkShader_Lerp_onAppendStages_def
        append_two_shaders_unfold Let_def SkBlendMode_AppendStages_def
        SkRasterPipeline_append_def)

theorem onAppendStages_failure_paths_witness:
  "SkShader_Blend_onAppendStages sample_appendStages kSrcOver (Addr 3) (Addr 9) rec0 =
     (False, \<lparr>fPipeline = [other_stage 3, store_src 0, other_stage 9],
              fAlloc = 1, fPaint = (float_1, float_0, float_0, float_1)\<rparr>) \<and>
   SkShader_Lerp_onAppendStages sample_appendStages 0x3F000000 (Addr 9) (Addr 3) rec0 =
     (False, \<lparr>fPipeline = [other_stage 9],
              fAlloc = 1, fPaint = (float_1, float_0, float_0, float_1)\<rparr>) \<and>
   SkShader_Blend_onAppendStages sample_appendStages kSrcOver (Addr 3) (Addr 4) rec0 =
     (True, \<lparr>fPipeline = [other_stage 3, store_src 0, other_stage 4, load_dst 0,
                           blend_stages kSrcOver],
             fAlloc = 1, fPaint = (float_1, float_0, float_0, float_1)\<rparr>) \<and>
   SkShader_Lerp_onAppendStages sample_appendStages 0x3F000000 (Addr 3) (Addr 4) rec0 =
     (True, \<lparr>fPipeline = [other_stage 3, store_src 0, other_stage 4, load_dst 0,
                           lerp_1_float 0x3F000000],
             fAlloc = 1, fPaint = (float_1, float_0, float_0, float_1)\<rparr>)"
  using onAppendStages_failure_paths
          [of rec0 sample_appendStages "Addr 3" "Addr 9" kSrcOver "0x3F000000"]
        onAppendStages_failure_paths
          [of rec0 sample_appendStages "Addr 9" "Addr 3" kSrcOver "0x3F000000"]
        onAppendStages_failure_paths
          [of rec0 sample_appendStages "Addr 3" "Addr 4" kSrcOver "0x3F000000"]
  by (simp add: Let_def append_shader_or_paint_simps sample_appendStages_def rec0_def
        SkRasterPipeline_append_def)

section \<open>Properties of the codec\<close>

lemma mode_value_kLastMode: "mode_value kLastMode = 28"
  by (simp add: mode_value_def all_modes_def kLastMode_def)

lemma length_all_modes: "length all_modes = 29"
  by (simp add: all_modes_def)

lemma mode_value_le: "mode_value m \<le> 28"
  by (cases m) (simp_all add: mode_value_def all_modes_def)

lemma mode_of_value_inverse: "mode_of_value (mode_value m) = m"
  by (cases m) (simp_all add: mode_value_def mode_of_value_def all_modes_def)

lemma unat_mode_word: "unat (of_nat (mode_value m) :: 32 word) = mode_value m"
proof -
  have "mode_value m < 2 ^ 32"
    using mode_value_le [of m] by simp
  then show ?thesis
    by (simp add: unat_of_nat)
qed

lemma mode_of_value_trivial:
  "mode_of_value 0 = kClear" "mode_of_value 1 = kSrc" "mode_of_value 2 = kDst"
  "mode_of_value 3 = kSrcOver" "mode_of_value (Suc 0) = kSrc"
  by (simp_all add: mode_of_value_def all_modes_def)

lemma MakeBlend_trivial:
  "MakeBlend h kClear dst src = (Addr (length h), h @ [SkColorShader 0])"
  "MakeBlend h kSrc dst src = (src, h)"
  "MakeBlend h kDst dst src = (dst, h)"
  by (simp_all add: MakeBlend_def MakeColorShader_def new_shader_def)

lemma SkShader_Blend_CreateProc_unfold:
  "SkShader_Blend_CreateProc readShader buffer h =
     (let r1 = readShader buffer h;
          r2 = readShader (fst (snd r1)) (snd (snd r1));
          dst = fst r1; src = fst r2; h2 = snd (snd r2);
          m = read32 (fst (snd r2));
          v = validate (snd m) (unat (fst m) \<le> mode_value kLastMode)
      in if \<not> fst v then (nullptr, snd v, h2)
         else (fst (MakeBlend h2 (mode_of_value (unat (fst m))) dst src), snd v,
               snd (MakeBlend h2 (mode_of_value (unat (fst m))) dst src)))"
  by (simp add: SkShader_Blend_CreateProc_def Let_def split: prod.splits)

text \<open>
  C7. With \<open>dst\<close> and \<open>src\<close> the two children read first, \<open>h2\<close> the store after
  reading them and \<open>mode\<close> the word read next: when \<open>mode\<close> exceeds the value of
  \<open>kLastMode\<close>, decoding returns \<open>nullptr\<close>, leaves the store as the children's
  decoding left it (no combinator is constructed) and leaves the stream marked
  invalid. When \<open>mode\<close> is in range and the stream is valid, decoding returns what
  \<open>MakeBlend\<close> returns for that mode and the decoded children, so the factory's
  simplifications apply again: the values of the clear, source-only and
  destination-only modes decode to a transparent-black colour shader, to the decoded
  source and to the decoded destination. On a stream
  that is already invalid decoding returns \<open>nullptr\<close> and allocates nothing.
\<close>

theorem SkShader_Blend_CreateProc_validates:
  "let r1 = readShader buffer h;
       r2 = readShader (fst (snd r1)) (snd (snd r1));
       dst = fst r1; src = fst r2; h2 = snd (snd r2);
       mode = fst (read32 (fst (snd r2)));
       buffer3 = snd (read32 (fst (snd r2)));
       decoded = SkShader_Blend_CreateProc readShader buffer h
   in (mode_value kLastMode < unat mode \<longrightarrow>
         decoded = (nullptr, buffer3\<lparr>fError := True\<rparr>, h2)) \<and>
      (unat mode \<le> mode_value kLastMode \<and> isValid buffer3 \<longrightarrow>
         decoded = (fst (MakeBlend h2 (mode_of_value (unat mode)) dst src), buffer3,
                    snd (MakeBlend h2 (mode_of_value (unat mode)) dst src))) \<and>
      (isValid buffer3 \<and> unat mode = mode_value kClear \<longrightarrow>
         decoded = (Addr (length h2), buffer3, h2 @ [SkColorShader 0])) \<and>
      (isValid buffer3 \<and> unat mode = mode_value kSrc \<longrightarrow> decoded = (src, buffer3, h2)) \<and>
      (isValid buffer3 \<and> unat mode = mode_value kDst \<longrightarrow> decoded = (dst, buffer3, h2)) \<and>
      (\<not> isValid buffer3 \<longrightarrow> fst decoded = nullptr \<and> snd (snd decoded) = h2)"
  using mode_value_le [of kClear] mode_value_le [of kSrc] mode_value_le [of kDst]
  by (auto simp add: SkShader_Blend_CreateProc_unfold Let_def validate_def isValid_def
        mode_value_kLastMode mode_of_value_inverse MakeBlend_trivial)


lemma read32_Cons:
  "read32 \<lparr>fData = v # rest, fError = False\<rparr> = (v, \<lparr>fData = rest, fError = False\<rparr>)"
  by (simp add: read32_def)

lemma color_readShader_color:
  "color_readShader \<lparr>fData = 1 # c # rest, fError = False\<rparr> h =
     (Addr (length h), \<lparr>fData = rest, fError = False\<rparr>, h @ [SkColorShader c])"
  by (simp add: color_readShader_def read32_Cons isValid_def MakeColorShader_def new_shader_def)

lemma color_readShader_null:
  "color_readShader \<lparr>fData = 0 # rest, fError = False\<rparr> h =
     (nullptr, \<lparr>fData = rest, fError = False\<rparr>, h)"
  by (simp add: color_readShader_def read32_Cons validate_def)

lemma color_readShader_empty:
  "color_readShader \<lparr>fData = [], fError = e\<rparr> h = (nullptr, \<lparr>fData = [], fError = True\<rparr>, h)"
  by (simp add: color_readShader_def read32_def validate_def)

theorem SkShader_Blend_CreateProc_validates_witness:
  "SkShader_Blend_CreateProc color_readShader
     \<lparr>fData = [1, 0xFFFF0000, 1, 0xFF0000FF, 29], fError = False\<rparr> [] =
     (nullptr, \<lparr>fData = [], fError = True\<rparr>,
      [SkColorShader 0xFFFF0000, SkColorShader 0xFF0000FF]) \<and>
   SkShader_Blend_CreateProc color_readShader
     \<lparr>fData = [1, 0xFFFF0000, 1, 0xFF0000FF, 3], fError = False\<rparr> [] =
     (Addr 2, \<lparr>fData = [], fError = False\<rparr>,
      [SkColorShader 0xFFFF0000, SkColorShader 0xFF0000FF,
       SkShader_Blend kSrcOver (Addr 0) (Addr 1)]) \<and>
   SkShader_Blend_CreateProc color_readShader
     \<lparr>fData = [1, 0xFFFF0000, 1, 0xFF0000FF, 2], fError = False\<rparr> [] =
     (Addr 0, \<lparr>fData = [], fError = False\<rparr>,
      [SkColorShader 0xFFFF0000, SkColorShader 0xFF0000FF]) \<and>
   SkShader_Blend_CreateProc color_readShader
     \<lparr>fData = [1, 0xFFFF0000, 1, 0xFF0000FF, 1], fError = False\<rparr> [] =
     (Addr 1, \<lparr>fData = [], fError = False\<rparr>,
      [SkColorShader 0xFFFF0000, SkColorShader 0xFF0000FF]) \<and>
   SkShader_Blend_CreateProc color_readShader
     \<lparr>fData = [1, 0xFFFF0000, 1, 0xFF0000FF, 0], fError = False\<rparr> [] =
     (Addr 2, \<lparr>fData = [], fError = False\<rparr>,
      [SkColorShader 0xFFFF0000, SkColorShader 0xFF0000FF, SkColorShader 0]) \<and>
   fst (SkShader_Blend_CreateProc color_readShader \<lparr>fData = [], fError = False\<rparr> []) =
     nullptr \<and>
   snd (snd (SkShader_Blend_CreateProc color_readShader \<lparr>fData = [], fError = False\<rparr> [])) =
     []"
  using SkShader_Blend_CreateProc_validates
          [of color_readShader "\<lparr>fData = [1, 0xFFFF0000, 1, 0xFF0000FF, 29], fError = False\<rparr>" "[]"]
        SkShader_Blend_CreateProc_validates
          [of color_readShader "\<lparr>fData = [1, 0xFFFF0000, 1, 0xFF0000FF, 3], fError = False\<rparr>" "[]"]
        SkShader_Blend_CreateProc_validates
          [of color_readShader "\<lparr>fData = [1, 0xFFFF0000, 1, 0xFF0000FF, 2], fError = False\<rparr>" "[]"]
        SkShader_Blend_CreateProc_validates
          [of color_readShader "\<lparr>fData = [1, 0xFFFF0000, 1, 0xFF0000FF, 1], fError = False\<rparr>" "[]"]
        SkShader_Blend_CreateProc_validates
          [of color_readShader "\<lparr>fData = [1, 0xFFFF0000, 1, 0xFF0000FF, 0], fError = False\<rparr>" "[]"]
        SkShader_Blend_CreateProc_validates
          [of color_readShader "\<lparr>fData = [], fError = False\<rparr>" "[]"]
  by (simp add: Let_def color_readShader_color color_readShader_empty read32_Cons read32_def
        isValid_def mode_value_kLastMode mode_of_value_trivial MakeBlend_def
        MakeColorShader_def new_shader_def)

lemma append_two_shaders_cong:
  assumes "\<And>rec. append_shader_or_paint app rec d' = append_shader_or_paint app rec d"
    and "\<And>rec. append_shader_or_paint app rec s' = append_shader_or_paint app rec s"
  shows "append_two_shaders app rec d' s' = append_two_shaders app rec d s"
  by (simp add: append_two_shaders_unfold Let_def assms)

text \<open>
  C8. Let the writer append the encodings \<open>ed\<close> and \<open>es\<close> for the two children, and let
  the reader turn these encodings back into references \<open>dst'\<close> and \<open>src'\<close> whose
  stage-append is that of the original children. Then a blend combinator (with a mode
  its invariant allows) is flattened as \<open>ed\<close>, \<open>es\<close> and the mode, in this order;
  unflattening that yields a new blend combinator with the same mode over \<open>dst'\<close>
  and \<open>src'\<close>, and this combinator appends the same stages with the same outcome as
  the original on every record, whatever the children's stages are. The same holds
  for a lerp combinator and its weight, the decoded children being two different
  references as the original ones are.
\<close>

theorem flatten_CreateProc_round_trip:
  assumes wr_d: "\<And>buf. writeFlattenable fDst buf = buf @ ed"
    and wr_s: "\<And>buf. writeFlattenable fSrc buf = buf @ es"
    and rd_d: "\<And>rest. readShader \<lparr>fData = ed @ rest, fError = False\<rparr> h =
                 (dst', \<lparr>fData = rest, fError = False\<rparr>, h1)"
    and rd_s: "\<And>rest. readShader \<lparr>fData = es @ rest, fError = False\<rparr> h1 =
                 (src', \<lparr>fData = rest, fError = False\<rparr>, h2)"
    and same_d: "\<And>rec. append_shader_or_paint appendStages rec dst' =
                 append_shader_or_paint appendStages rec fDst"
    and same_s: "\<And>rec. append_shader_or_paint appendStages rec src' =
                 append_shader_or_paint appendStages rec fSrc"
  shows
   "(shader_invariant (SkShader_Blend fMode fDst fSrc) \<longrightarrow>
       SkShader_Blend_flatten writeFlattenable fMode fDst fSrc [] =
         ed @ es @ [of_nat (mode_value fMode)] \<and>
       SkShader_Blend_CreateProc readShader
         \<lparr>fData = SkShader_Blend_flatten writeFlattenable fMode fDst fSrc [],
          fError = False\<rparr> h =
         (Addr (length h2), \<lparr>fData = [], fError = False\<rparr>,
          h2 @ [SkShader_Blend fMode dst' src']) \<and>
       SkShader_Blend_onAppendStages appendStages fMode dst' src' rec =
         SkShader_Blend_onAppendStages appendStages fMode fDst fSrc rec) \<and>
    (shader_invariant (SkShader_Lerp fWeight fDst fSrc) \<and> dst' \<noteq> src' \<longrightarrow>
       SkShader_Lerp_flatten writeFlattenable fWeight fDst fSrc [] = ed @ es @ [fWeight] \<and>
       SkShader_Lerp_CreateProc readShader
         \<lparr>fData = SkShader_Lerp_flatten writeFlattenable fWeight fDst fSrc [],
          fError = False\<rparr> h =
         (Addr (length h2), \<lparr>fData = [], fError = False\<rparr>,
          h2 @ [SkShader_Lerp fWeight dst' src']) \<and>
       SkShader_Lerp_onAppendStages appendStages fWeight dst' src' rec =
         SkShader_Lerp_onAppendStages appendStages fWeight fDst fSrc rec)"
proof -
  have two: "append_two_shaders appendStages rec dst' src' =
      append_two_shaders appendStages rec fDst fSrc"
    by (rule append_two_shaders_cong [OF same_d same_s])
  have fb: "SkShader_Blend_flatten writeFlattenable fMode fDst fSrc [] =
      ed @ es @ [of_nat (mode_value fMode)]"
    by (simp add: SkShader_Blend_flatten_def write32_def wr_d wr_s)
  have fl: "SkShader_Lerp_flatten writeFlattenable fWeight fDst fSrc [] = ed @ es @ [fWeight]"
    by (simp add: SkShader_Lerp_flatten_def writeScalar_def wr_d wr_s)
  have ab: "SkShader_Blend_onAppendStages appendStages fMode dst' src' rec =
      SkShader_Blend_onAppendStages appendStages fMode fDst fSrc rec"
    by (simp add: SkShader_Blend_onAppendStages_def two)
  have al: "SkShader_Lerp_onAppendStages appendStages fWeight dst' src' rec =
      SkShader_Lerp_onAppendStages appendStages fWeight fDst fSrc rec"
    by (simp add: SkShader_Lerp_onAppendStages_def two)
  have cb: "SkShader_Blend_CreateProc readShader
         \<lparr>fData = ed @ es @ [of_nat (mode_value fMode)], fError = False\<rparr> h =
         (Addr (length h2), \<lparr>fData = [], fError = False\<rparr>,
          h2 @ [SkShader_Blend fMode dst' src'])"
    if inv: "shader_invariant (SkShader_Blend fMode fDst fSrc)"
  proof -
    from inv have mk: "MakeBlend h2 fMode dst' src' =
        (Addr (length h2), h2 @ [SkShader_Blend fMode dst' src'])"
      by (cases fMode) (simp_all add: MakeBlend_def new_shader_def)
    show ?thesis
      using rd_s [of "[of_nat (mode_value fMode)]"]
      by (simp add: SkShader_Blend_CreateProc_def rd_d read32_Cons validate_def
          unat_mode_word mode_value_kLastMode mode_value_le mode_of_value_inverse mk)
  qed
  have cl: "SkShader_Lerp_CreateProc readShader
         \<lparr>fData = ed @ es @ [fWeight], fError = False\<rparr> h =
         (Addr (length h2), \<lparr>fData = [], fError = False\<rparr>,
          h2 @ [SkShader_Lerp fWeight dst' src'])"
    if inv: "shader_invariant (SkShader_Lerp fWeight fDst fSrc)" and ne: "dst' \<noteq> src'"
  proof -
    from inv ne have mk: "MakeLerp h2 fWeight dst' src' =
        (Addr (length h2), h2 @ [SkShader_Lerp fWeight dst' src'])"
      by (auto simp add: MakeLerp_def new_shader_def float_cmp_iffs)
    show ?thesis
      using rd_s [of "[fWeight]"]
      by (simp add: SkShader_Lerp_CreateProc_def rd_d readScalar_def read32_Cons isValid_def mk)
  qed
  from fb fl ab al cb cl show ?thesis by simp
qed


theorem flatten_CreateProc_round_trip_witness:
  "SkShader_Blend_CreateProc color_readShader
     \<lparr>fData = SkShader_Blend_flatten (color_writeFlattenable [SkColorShader 0xFF0000FF])
                kSrcOver nullptr (Addr 0) [],
      fError = False\<rparr> [SkColorShader 0xFF0000FF] =
     (Addr 2, \<lparr>fData = [], fError = False\<rparr>,
      [SkColorShader 0xFF0000FF, SkColorShader 0xFF0000FF,
       SkShader_Blend kSrcOver nullptr (Addr 1)]) \<and>
   SkShader_Blend_onAppendStages
       (color_appendStages [SkColorShader 0xFF0000FF, SkColorShader 0xFF0000FF])
       kSrcOver nullptr (Addr 1) rec0 =
     SkShader_Blend_onAppendStages
       (color_appendStages [SkColorShader 0xFF0000FF, SkColorShader 0xFF0000FF])
       kSrcOver nullptr (Addr 0) rec0 \<and>
   SkShader_Lerp_CreateProc color_readShader
     \<lparr>fData = SkShader_Lerp_flatten (color_writeFlattenable [SkColorShader 0xFF0000FF])
                0x3F000000 nullptr (Addr 0) [],
      fError = False\<rparr> [SkColorShader 0xFF0000FF] =
     (Addr 2, \<lparr>fData = [], fError = False\<rparr>,
      [SkColorShader 0xFF0000FF, SkColorShader 0xFF0000FF,
       SkShader_Lerp 0x3F000000 nullptr (Addr 1)]) \<and>
   SkShader_Lerp_onAppendStages
       (color_appendStages [SkColorShader 0xFF0000FF, SkColorShader 0xFF0000FF])
       0x3F000000 nullptr (Addr 1) rec0 =
     SkShader_Lerp_onAppendStages
       (color_appendStages [SkColorShader 0xFF0000FF, SkColorShader 0xFF0000FF])
       0x3F000000 nullptr (Addr 0) rec0"
proof -
  let ?c = "SkColorShader 0xFF0000FF"
  let ?app = "color_appendStages [?c, ?c]"
  have wr_d: "\<And>buf. color_writeFlattenable [?c] nullptr buf = buf @ [0]"
    by (simp add: color_writeFlattenable_def heap_at_def write32_def)
  have wr_s: "\<And>buf. color_writeFlattenable [?c] (Addr 0) buf = buf @ [1, 0xFF0000FF]"
    by (simp add: color_writeFlattenable_def heap_at_def write32_def)
  have rd_d: "\<And>rest. color_readShader \<lparr>fData = [0] @ rest, fError = False\<rparr> [?c] =
      (nullptr, \<lparr>fData = rest, fError = False\<rparr>, [?c])"
    by (simp add: color_readShader_null)
  have rd_s: "\<And>rest. color_readShader \<lparr>fData = [1, 0xFF0000FF] @ rest, fError = False\<rparr> [?c] =
      (Addr 1, \<lparr>fData = rest, fError = False\<rparr>, [?c, ?c])"
    by (simp add: color_readShader_color)
  have same_d: "\<And>rec. append_shader_or_paint ?app rec nullptr =
      append_shader_or_paint ?app rec nullptr"
    by simp
  have same_s: "\<And>rec. append_shader_or_paint ?app rec (Addr 1) =
      append_shader_or_paint ?app rec (Addr 0)"
    by (simp add: append_shader_or_paint_simps color_appendStages_def heap_at_def)
  have inv_b: "shader_invariant (SkShader_Blend kSrcOver nullptr (Addr 0))"
    by simp
  have inv_l: "shader_invariant (SkShader_Lerp 0x3F000000 nullptr (Addr 0))"
    by (simp add: float_cmp_iffs half_not_nan half_key)
  have ne: "nullptr \<noteq> Addr 1"
    by simp
  note rt = flatten_CreateProc_round_trip
         [where writeFlattenable = "color_writeFlattenable [?c]" and readShader = color_readShader
            and appendStages = ?app and fDst = nullptr and fSrc = "Addr 0"
            and dst' = nullptr and src' = "Addr 1" and h = "[?c]"
            and fMode = kSrcOver and rec = rec0 and fWeight = "0x3F000000",
          OF wr_d wr_s rd_d rd_s same_d same_s]
  from rt inv_b have cb:
    "SkShader_Blend_CreateProc color_readShader
       \<lparr>fData = SkShader_Blend_flatten (color_writeFlattenable [?c]) kSrcOver nullptr (Addr 0) [],
        fError = False\<rparr> [?c] =
       (Addr (length [?c, ?c]), \<lparr>fData = [], fError = False\<rparr>,
        [?c, ?c] @ [SkShader_Blend kSrcOver nullptr (Addr 1)])"
    by blast
  from rt inv_b have ab:
    "SkShader_Blend_onAppendStages ?app kSrcOver nullptr (Addr 1) rec0 =
       SkShader_Blend_onAppendStages ?app kSrcOver nullptr (Addr 0) rec0"
    by blast
  from rt inv_l ne have cl:
    "SkShader_Lerp_CreateProc color_readShader
       \<lparr>fData = SkShader_Lerp_flatten (color_writeFlattenable [?c]) 0x3F000000 nullptr (Addr 0) [],
        fError = False\<rparr> [?c] =
       (Addr (length [?c, ?c]), \<lparr>fData = [], fError = False\<rparr>,
        [?c, ?c] @ [SkShader_Lerp 0x3F000000 nullptr (Addr 1)])"
    by blast
  from rt inv_l ne have al:
    "SkShader_Lerp_onAppendStages ?app 0x3F000000 nullptr (Addr 1) rec0 =
       SkShader_Lerp_onAppendStages ?app 0x3F000000 nullptr (Addr 0) rec0"
    by blast
  from cb ab cl al show ?thesis
    by simp
qed

text \<open>
  Decoding allocates combinators through the factories only, so it keeps the
  invariant of the stored objects whenever the decoding of the children does.
\<close>

lemma SkShader_Lerp_CreateProc_unfold:
  "SkShader_Lerp_CreateProc readShader buffer h =
     (let r1 = readShader buffer h;
          r2 = readShader (fst (snd r1)) (snd (snd r1));
          dst = fst r1; src = fst r2; h2 = snd (snd r2);
          t = readScalar (fst (snd r2))
      in if isValid (snd t)
         then (fst (MakeLerp h2 (fst t) dst src), snd t, snd (MakeLerp h2 (fst t) dst src))
         else (nullptr, snd t, h2))"
  by (simp add: SkShader_Lerp_CreateProc_def Let_def split: prod.splits)

lemma CreateProc_invariant:
  assumes rd: "\<And>b h. list_all shader_invariant h \<Longrightarrow>
                 list_all shader_invariant (snd (snd (readShader b h)))"
    and inv: "list_all shader_invariant h"
  shows "list_all shader_invariant (snd (snd (SkShader_Blend_CreateProc readShader buffer h)))"
    and "list_all shader_invariant (snd (snd (SkShader_Lerp_CreateProc readShader buffer h)))"
proof -
  define r1 where "r1 = readShader buffer h"
  define r2 where "r2 = readShader (fst (snd r1)) (snd (snd r1))"
  have h1: "list_all shader_invariant (snd (snd r1))"
    unfolding r1_def by (rule rd [OF inv])
  have h2: "list_all shader_invariant (snd (snd r2))"
    unfolding r2_def by (rule rd [OF h1])
  show "list_all shader_invariant (snd (snd (SkShader_Blend_CreateProc readShader buffer h)))"
    using h2 MakeBlend_invariant [OF h2]
    by (simp add: SkShader_Blend_CreateProc_unfold Let_def r1_def r2_def)
  show "list_all shader_invariant (snd (snd (SkShader_Lerp_CreateProc readShader buffer h)))"
    using h2 MakeLerp_invariant [OF h2]
    by (simp add: SkShader_Lerp_CreateProc_unfold Let_def r1_def r2_def)
qed

section \<open>Properties of the GPU lowering\<close>

text \<open>With both children present the lerp combinator has no fragment processor.\<close>

lemma SkShader_Lerp_asFragmentProcessor_present:
  "SkShader_Lerp_asFragmentProcessor asFP w (Addr a) (Addr b) args = Inr None"
  by (simp add: SkShader_Lerp_asFragmentProcessor_def as_SB_asFragmentProcessor_def
        split: option.splits)

text \<open>
  C10 fails for a lerp combinator with an absent child, which \<open>MakeLerp\<close> builds from
  a weight of 0.5, an absent destination and a colour shader: the lowering
  dereferences the null destination instead of returning an absent result.
\<close>

theorem SkShader_Lerp_asFragmentProcessor_null_child:
  "SkShader_Lerp_asFragmentProcessor (\<lambda>a args. Some a) 0x3F000000 nullptr (Addr 0) () =
     Inl NullDereference \<and>
   MakeLerp [SkColorShader 0xFF0000FF] 0x3F000000 nullptr (Addr 0) =
     (Addr 1, [SkColorShader 0xFF0000FF, SkShader_Lerp 0x3F000000 nullptr (Addr 0)])"
  by (simp add: SkShader_Lerp_asFragmentProcessor_def as_SB_asFragmentProcessor_def
        MakeLerp_def new_shader_def half_not_nan float_cmp_iffs half_key)

end
